theory Spec2Isabelle
  imports Complex_Main "HOL-Library.AList" "HOL-Library.Monad_Syntax"
begin

section \<open>Python strings\<close>

text \<open>
  A Python \<open>str\<close> is a sequence of code points. It is modelled as a HOL \<open>string\<close>, one
  \<open>char\<close> per code point, which covers the code points 0 to 255; \<open>length\<close> then counts
  what Python's \<open>len\<close> counts.
\<close>

text \<open>\<open>s.find(c)\<close> for a one-character \<open>c\<close>: the lowest index of \<open>c\<close> in \<open>s\<close>, or -1.\<close>

fun find_from :: "char \<Rightarrow> string \<Rightarrow> int \<Rightarrow> int" where
  "find_from c [] i = - 1"
| "find_from c (x # xs) i = (if x = c then i else find_from c xs (i + 1))"

definition find_str :: "char \<Rightarrow> string \<Rightarrow> int" where
  "find_str c s = find_from c s 0"

text \<open>\<open>s.rfind(c)\<close>: the highest index of \<open>c\<close> in \<open>s\<close>, or -1.\<close>

fun rfind_from :: "char \<Rightarrow> string \<Rightarrow> int \<Rightarrow> int \<Rightarrow> int" where
  "rfind_from c [] i best = best"
| "rfind_from c (x # xs) i best = rfind_from c xs (i + 1) (if x = c then i else best)"

definition rfind_str :: "char \<Rightarrow> string \<Rightarrow> int" where
  "rfind_str c s = rfind_from c s 0 (- 1)"

text \<open>
  \<open>s[a:b]\<close> for indices \<open>0 \<le> a\<close> and \<open>0 \<le> b\<close>, the only slices the source takes
  (negative indices, which Python counts from the end, do not arise). A bound beyond the
  end of the string is clipped, as in Python.
\<close>

definition slice :: "string \<Rightarrow> int \<Rightarrow> int \<Rightarrow> string" where
  "slice s a b = take (nat b - nat a) (drop (nat a) s)"

text \<open>
  \<open>str.isspace\<close> on one code point, for the code points below 256: tab, line feed,
  vertical tab, form feed, carriage return, the separators 28 to 31, space, NEL (133) and
  the no-break space (160).
\<close>

definition is_space :: "char \<Rightarrow> bool" where
  "is_space c = (let n = (of_char c :: nat) in
     (9 \<le> n \<and> n \<le> 13) \<or> (28 \<le> n \<and> n \<le> 32) \<or> n = 133 \<or> n = 160)"

text \<open>
  \<open>s.split()\<close> with no argument: the maximal runs of non-whitespace characters, in
  order; leading, trailing and repeated whitespace yields no empty token. \<open>cur\<close> is the
  token being read.
\<close>

fun split_from :: "string \<Rightarrow> string \<Rightarrow> string list" where
  "split_from cur [] = (if cur = [] then [] else [cur])"
| "split_from cur (c # cs) =
     (if is_space c then (if cur = [] then split_from [] cs else cur # split_from [] cs)
      else split_from (cur @ [c]) cs)"

definition split :: "string \<Rightarrow> string list" where
  "split s = split_from [] s"

text \<open>\<open>word.startswith("#")\<close>.\<close>

fun startswith_hash :: "string \<Rightarrow> bool" where
  "startswith_hash [] = False"
| "startswith_hash (c # cs) = (c = CHR ''#'')"

text \<open>
  \<open>str.lower\<close>, on the letters A to Z. The source lowers an error message only to look
  for four ASCII phrases in it; no other code point lowers to a letter that could complete
  one of them.
\<close>

definition lower_char :: "char \<Rightarrow> char" where
  "lower_char c =
     (case map_of (zip ''ABCDEFGHIJKLMNOPQRSTUVWXYZ'' ''abcdefghijklmnopqrstuvwxyz'') c of
        Some l \<Rightarrow> l
      | None \<Rightarrow> c)"

definition lower :: "string \<Rightarrow> string" where
  "lower s = map lower_char s"

text \<open>\<open>p in s\<close> for strings: \<open>p\<close> occurs in \<open>s\<close> as a contiguous substring.\<close>

fun starts_with :: "string \<Rightarrow> string \<Rightarrow> bool" where
  "starts_with [] s = True"
| "starts_with (p # ps) [] = False"
| "starts_with (p # ps) (c # cs) = (p = c \<and> starts_with ps cs)"

fun contains :: "string \<Rightarrow> string \<Rightarrow> bool" where
  "contains p [] = (p = [])"
| "contains p (c # cs) = (starts_with p (c # cs) \<or> contains p cs)"

section \<open>JSON values and dictionaries\<close>

text \<open>
  What \<open>json.loads\<close> returns: \<open>None\<close>, \<open>bool\<close>, \<open>int\<close>, \<open>float\<close> (by its value),
  \<open>str\<close>, \<open>list\<close> and \<open>dict\<close>. A \<open>dict\<close> is an association list in insertion order;
  it is read with \<open>map_of\<close>, written with \<open>AList.update\<close> (in place when the key is
  there, at the end otherwise) and a key is removed with \<open>AList.delete\<close>.
\<close>

datatype json =
    JNull
  | JBool bool
  | JInt int
  | JFloat rat
  | JString string
  | JArray "json list"
  | JObject "(string \<times> json) list"

type_synonym pydict = "(string \<times> json) list"

text \<open>\<open>key in d\<close>.\<close>

definition has_key :: "string \<Rightarrow> pydict \<Rightarrow> bool" where
  "has_key k d = (map_of d k \<noteq> None)"

text \<open>\<open>type(v).__name__\<close>, as it appears in the message of an \<open>AttributeError\<close>.\<close>

fun type_name :: "json \<Rightarrow> string" where
  "type_name JNull = ''NoneType''"
| "type_name (JBool b) = ''bool''"
| "type_name (JInt i) = ''int''"
| "type_name (JFloat r) = ''float''"
| "type_name (JString s) = ''str''"
| "type_name (JArray xs) = ''list''"
| "type_name (JObject d) = ''dict''"

text \<open>
  The message of the \<open>AttributeError\<close> that \<open>v.split\<close> raises for a value that is
  not a string: the type name and the attribute, each between apostrophes.
\<close>

definition no_attribute_split :: "json \<Rightarrow> string" where
  "no_attribute_split v =
     [CHR 0x27] @ type_name v @ [CHR 0x27] @ '' object has no attribute '' @
     [CHR 0x27] @ ''split'' @ [CHR 0x27]"

section \<open>Outcomes of the analysis\<close>

text \<open>
  \<open>analyze_video\<close> returns a \<open>VideoAnalysis\<close> or \<open>None\<close>. The source logs the cause
  and returns \<open>None\<close> on every failure path; the model names the path that was taken:
  \<^item> \<open>NoJsonFound\<close>: no bracketed span in the response (line 245), with the text logged
    as the original response;
  \<^item> \<open>JsonParseError\<close>: \<open>json.JSONDecodeError\<close> (line 250), with the text logged;
  \<^item> \<open>QuotaExhausted\<close>: a quota or rate-limit error with no retry left (line 269);
  \<^item> \<open>PayloadTooLarge\<close>: a size error, which leaves the loop (lines 273 and 290);
  \<^item> \<open>Unrecoverable\<close>: any other exception of the call or of the processing of its
    response (line 275);
  \<^item> \<open>PreparationError\<close>: an exception while the request is prepared (line 281);
  \<^item> \<open>NoAttempt\<close>: the loop is not entered (line 290);
  \<^item> \<open>SchemaViolation\<close>: \<open>pydantic.ValidationError\<close>, raised by the constructor of
    \<open>VideoAnalysis\<close>;
  \<^item> \<open>FileMissing\<close>: \<open>FileNotFoundError\<close>, raised before the loop (line 111).
\<close>

datatype failure =
    NoJsonFound string
  | JsonParseError string
  | QuotaExhausted
  | PayloadTooLarge
  | Unrecoverable
  | PreparationError
  | NoAttempt
  | SchemaViolation
  | FileMissing

text \<open>
  The exceptions that reach the handler of line 252, each with \<open>str(e)\<close> as the handler
  reads it: \<open>ApiError\<close> is whatever \<open>generate_content\<close> or \<open>response.text\<close> raises;
  \<open>ValueError\<close> and \<open>RecursionError\<close> are the exceptions of \<open>json.loads\<close> that are
  not \<open>json.JSONDecodeError\<close>.
\<close>

datatype pyexc =
    ApiError string
  | AttributeError string
  | ValidationError string
  | ValueError string
  | RecursionError string

fun exc_str :: "pyexc \<Rightarrow> string" where
  "exc_str (ApiError m) = m"
| "exc_str (AttributeError m) = m"
| "exc_str (ValidationError m) = m"
| "exc_str (ValueError m) = m"
| "exc_str (RecursionError m) = m"

section \<open>Repair of the parsed response (lines 199 to 238)\<close>

definition required_fields :: "string list" where
  "required_fields =
     [''descripcion_original'', ''titulo_portada'', ''idea_video'', ''gancho_video'',
      ''acciones'', ''dialogo'', ''musica'', ''expectativas_cumplidas'', ''caption_video'']"

definition field_mapping :: "(string \<times> string) list" where
  "field_mapping =
     [(''titulo'', ''titulo_portada''),
      (''gancho_inicial'', ''gancho_video''),
      (''caption'', ''caption_video'')]"

definition default_hashtags :: json where
  "default_hashtags =
     JArray [JString ''#BarentBarefoot'', JString ''#EntrenamientoNatural'',
             JString ''#CuerpoFuerte'']"

definition placeholder :: json where
  "placeholder = JString ''No especificado''"

text \<open>
  One turn of the loop of line 211:
  \<open>if old_field in json_response and new_field not in json_response:
     json_response[new_field] = json_response.pop(old_field)\<close>.
\<close>

fun rename_field :: "string \<times> string \<Rightarrow> pydict \<Rightarrow> pydict" where
  "rename_field (old_field, new_field) d =
     (case map_of d old_field of
        Some v \<Rightarrow>
          if \<not> has_key new_field d
          then AList.update new_field v (AList.delete old_field d)
          else d
      | None \<Rightarrow> d)"

definition apply_field_mapping :: "pydict \<Rightarrow> pydict" where
  "apply_field_mapping d = fold rename_field field_mapping d"

text \<open>Line 216: the required fields that are not keys of the response, in order.\<close>

definition missing_fields :: "pydict \<Rightarrow> string list" where
  "missing_fields d = filter (\<lambda>field. \<not> has_key field d) required_fields"

text \<open>One turn of the loop of line 220, with both of its branches.\<close>

definition fill_field :: "string \<Rightarrow> pydict \<Rightarrow> pydict" where
  "fill_field field d =
     (if field = ''hashtags'' then AList.update field default_hashtags d
      else AList.update field placeholder d)"

definition fill_missing_fields :: "pydict \<Rightarrow> pydict" where
  "fill_missing_fields d =
     (let missing = missing_fields d
      in if missing \<noteq> [] then fold fill_field missing d else d)"

text \<open>
  Lines 227 to 238. \<open>caption.split()\<close> exists for a \<open>str\<close> only: any other value
  raises \<open>AttributeError\<close>.
\<close>

definition ensure_hashtags :: "pydict \<Rightarrow> pyexc + pydict" where
  "ensure_hashtags d =
     (if \<not> has_key ''hashtags'' d then
        (case map_of d ''caption_video'' of
           Some caption \<Rightarrow>
             (case caption of
                JString s \<Rightarrow>
                  (let hashtags = filter startswith_hash (split s)
                   in if hashtags \<noteq> []
                      then Inr (AList.update ''hashtags'' (JArray (map JString hashtags)) d)
                      else Inr (AList.update ''hashtags'' default_hashtags d))
              | _ \<Rightarrow>
                  Inl (AttributeError (no_attribute_split caption)))
         | None \<Rightarrow> Inr (AList.update ''hashtags'' default_hashtags d))
      else Inr d)"

text \<open>The three steps in the order of the source.\<close>

definition repair_object :: "pydict \<Rightarrow> pyexc + pydict" where
  "repair_object d = ensure_hashtags (fill_missing_fields (apply_field_mapping d))"

section \<open>The schema (app/models/video_analysis_model.py)\<close>

text \<open>
  The four pydantic models, each with \<open>extra='allow'\<close>: the keys that are not declared
  fields are kept as they are. The field \<open>dialogo\<close> of \<open>DialogInfo\<close> is \<open>dialogo_list\<close>
  here, the name \<open>dialogo\<close> being the field of \<open>VideoAnalysis\<close>.
\<close>

record MusicRecommendation =
  nombre_cancion :: string
  artista :: string
  extra_recommendation :: pydict

record MusicInfo =
  hay_musica :: bool
  recomendacion :: "MusicRecommendation option"
  extra_music :: pydict

record DialogInfo =
  hay_dialogo :: bool
  dialogo_list :: "(string \<times> string) list option"
  extra_dialog :: pydict

record VideoAnalysis =
  descripcion_original :: string
  titulo_portada :: string
  idea_video :: string
  gancho_video :: string
  acciones :: "string list"
  dialogo :: DialogInfo
  musica :: MusicInfo
  expectativas_cumplidas :: string
  caption_video :: string
  hashtags :: "string list option"
  extra :: pydict

subsection \<open>Validation of one value against a field type\<close>

text \<open>
  pydantic validates the values that \<open>json.loads\<close> produced in its default (lax) mode.
  \<open>None\<close> below is a validation error.
\<close>

text \<open>\<open>str\<close>: a string only; numbers are not converted.\<close>

fun valid_str :: "json \<Rightarrow> string option" where
  "valid_str (JString s) = Some s"
| "valid_str v = None"

text \<open>
  \<open>bool\<close>: a boolean; the numbers 0 and 1; and, whatever the case of their letters, the
  words of the two lists.
\<close>

definition false_words :: "string list" where
  "false_words = [''0'', ''off'', ''f'', ''false'', ''n'', ''no'']"

definition true_words :: "string list" where
  "true_words = [''1'', ''on'', ''t'', ''true'', ''y'', ''yes'']"

fun valid_bool :: "json \<Rightarrow> bool option" where
  "valid_bool (JBool b) = Some b"
| "valid_bool (JInt i) = (if i = 0 then Some False else if i = 1 then Some True else None)"
| "valid_bool (JFloat r) = (if r = 0 then Some False else if r = 1 then Some True else None)"
| "valid_bool (JString s) =
     (if lower s \<in> set false_words then Some False
      else if lower s \<in> set true_words then Some True else None)"
| "valid_bool v = None"

text \<open>\<open>List[str]\<close>: a list whose items are all strings.\<close>

fun valid_str_list :: "json \<Rightarrow> string list option" where
  "valid_str_list (JArray xs) = those (map valid_str xs)"
| "valid_str_list v = None"

text \<open>\<open>Tuple[str, str]\<close>: a list of exactly two strings.\<close>

fun valid_pair :: "json \<Rightarrow> (string \<times> string) option" where
  "valid_pair (JArray [a, b]) =
     (case (valid_str a, valid_str b) of (Some x, Some y) \<Rightarrow> Some (x, y) | _ \<Rightarrow> None)"
| "valid_pair v = None"

text \<open>\<open>List[Tuple[str, str]]\<close>.\<close>

fun valid_pair_list :: "json \<Rightarrow> (string \<times> string) list option" where
  "valid_pair_list (JArray xs) = those (map valid_pair xs)"
| "valid_pair_list v = None"

text \<open>\<open>Optional[T]\<close>: \<open>None\<close>, or a value of \<open>T\<close>.\<close>

definition valid_optional :: "(json \<Rightarrow> 'a option) \<Rightarrow> json \<Rightarrow> 'a option option" where
  "valid_optional f v = (if v = JNull then Some None else map_option Some (f v))"

text \<open>A required field (\<open>Field(...)\<close>), and a field with a default.\<close>

definition required :: "string \<Rightarrow> (json \<Rightarrow> 'a option) \<Rightarrow> pydict \<Rightarrow> 'a option" where
  "required k f d = (case map_of d k of None \<Rightarrow> None | Some v \<Rightarrow> f v)"

definition with_default :: "string \<Rightarrow> (json \<Rightarrow> 'a option) \<Rightarrow> 'a \<Rightarrow> pydict \<Rightarrow> 'a option" where
  "with_default k f dflt d = (case map_of d k of None \<Rightarrow> Some dflt | Some v \<Rightarrow> f v)"

text \<open>The entries whose key is not a declared field.\<close>

definition extras :: "string list \<Rightarrow> pydict \<Rightarrow> pydict" where
  "extras names d = filter (\<lambda>kv. fst kv \<notin> set names) d"

subsection \<open>Validation of the models\<close>

definition validate_MusicRecommendation :: "json \<Rightarrow> MusicRecommendation option" where
  "validate_MusicRecommendation v =
     (case v of
        JObject d \<Rightarrow> do {
          n \<leftarrow> required ''nombre_cancion'' valid_str d;
          a \<leftarrow> required ''artista'' valid_str d;
          Some \<lparr>nombre_cancion = n, artista = a,
                extra_recommendation = extras [''nombre_cancion'', ''artista''] d\<rparr> }
      | _ \<Rightarrow> None)"

definition validate_MusicInfo :: "json \<Rightarrow> MusicInfo option" where
  "validate_MusicInfo v =
     (case v of
        JObject d \<Rightarrow> do {
          h \<leftarrow> required ''hay_musica'' valid_bool d;
          r \<leftarrow> with_default ''recomendacion'' (valid_optional validate_MusicRecommendation)
                 None d;
          Some \<lparr>hay_musica = h, recomendacion = r,
                extra_music = extras [''hay_musica'', ''recomendacion''] d\<rparr> }
      | _ \<Rightarrow> None)"

definition validate_DialogInfo :: "json \<Rightarrow> DialogInfo option" where
  "validate_DialogInfo v =
     (case v of
        JObject d \<Rightarrow> do {
          h \<leftarrow> required ''hay_dialogo'' valid_bool d;
          l \<leftarrow> with_default ''dialogo'' (valid_optional valid_pair_list) None d;
          Some \<lparr>hay_dialogo = h, dialogo_list = l,
                extra_dialog = extras [''hay_dialogo'', ''dialogo''] d\<rparr> }
      | _ \<Rightarrow> None)"

definition field_names :: "string list" where
  "field_names =
     [''descripcion_original'', ''titulo_portada'', ''idea_video'', ''gancho_video'',
      ''acciones'', ''dialogo'', ''musica'', ''expectativas_cumplidas'', ''caption_video'',
      ''hashtags'']"

definition validate_fields :: "pydict \<Rightarrow> VideoAnalysis option" where
  "validate_fields d = do {
     f1 \<leftarrow> required ''descripcion_original'' valid_str d;
     f2 \<leftarrow> required ''titulo_portada'' valid_str d;
     f3 \<leftarrow> required ''idea_video'' valid_str d;
     f4 \<leftarrow> required ''gancho_video'' valid_str d;
     f5 \<leftarrow> required ''acciones'' valid_str_list d;
     f6 \<leftarrow> required ''dialogo'' validate_DialogInfo d;
     f7 \<leftarrow> required ''musica'' validate_MusicInfo d;
     f8 \<leftarrow> required ''expectativas_cumplidas'' valid_str d;
     f9 \<leftarrow> required ''caption_video'' valid_str d;
     f10 \<leftarrow> with_default ''hashtags'' (valid_optional valid_str_list) (Some []) d;
     Some \<lparr>descripcion_original = f1, titulo_portada = f2, idea_video = f3,
           gancho_video = f4, acciones = f5, dialogo = f6, musica = f7,
           expectativas_cumplidas = f8, caption_video = f9, hashtags = f10,
           extra = extras field_names d\<rparr> }"

text \<open>
  \<open>VideoAnalysis(**json_response)\<close>: the validated model, or \<open>ValidationError\<close>, the
  schema violation.
\<close>

definition validate :: "pydict \<Rightarrow> failure + VideoAnalysis" where
  "validate d = (case validate_fields d of None \<Rightarrow> Inl SchemaViolation | Some va \<Rightarrow> Inr va)"

section \<open>The analysis of one video (\<open>GeminiService.analyze_video\<close>)\<close>

text \<open>
  What \<open>json.loads\<close> does with the text between the braces (line 196). The text starts
  with an opening brace, so a value that is returned is a \<open>dict\<close> (\<open>Loaded\<close>). A text
  that is not JSON raises \<open>json.JSONDecodeError\<close>, which line 247 catches. The parser
  also raises exceptions which that line does not catch (\<open>LoadsRaised\<close>): \<open>ValueError\<close>
  for an integer of more than 4300 digits, \<open>RecursionError\<close> for nesting that is too
  deep.
\<close>

datatype loaded = Loaded pydict | JSONDecodeError | LoadsRaised pyexc

text \<open>
  What the function takes from outside:
  \<^item> \<open>json_loads\<close>: \<open>json.loads\<close>, with its three outcomes;
  \<^item> \<open>validation_message\<close>: \<open>str(e)\<close> of the \<open>ValidationError\<close> that pydantic raises
    for a dictionary it rejects;
  \<^item> \<open>generate_content\<close>: the remote call of the attempt with the given index, which
    raises, or returns the text of the response.
\<close>

record env =
  json_loads :: "string \<Rightarrow> loaded"
  validation_message :: "pydict \<Rightarrow> string"
  generate_content :: "nat \<Rightarrow> pyexc + string"

subsection \<open>Processing of a response (lines 181 to 250)\<close>

text \<open>
  What happens inside the inner \<open>try\<close> once the response is there: an exception
  (\<open>Raised\<close>), or a \<open>return\<close> of \<open>None\<close> or of a \<open>VideoAnalysis\<close> (\<open>Returned\<close>).
\<close>

datatype step = Raised pyexc | Returned "failure + VideoAnalysis"

text \<open>
  The repair stage, from the raw text to the repaired dictionary (lines 187 to 238): an
  exception that leaves the stage (of the parser, or of the repair of the object), a
  \<open>return None\<close> with its cause, or the dictionary.
\<close>

definition repair :: "env \<Rightarrow> string \<Rightarrow> pyexc + (failure + pydict)" where
  "repair E cleaned_response =
     (let start_idx = find_str CHR ''{'' cleaned_response;
          end_idx = rfind_str CHR ''}'' cleaned_response
      in if start_idx \<ge> 0 \<and> end_idx > start_idx then
           (let json_str = slice cleaned_response start_idx (end_idx + 1)
            in case json_loads E json_str of
                 JSONDecodeError \<Rightarrow> Inr (Inl (JsonParseError (take 500 cleaned_response)))
               | LoadsRaised e \<Rightarrow> Inl e
               | Loaded json_response \<Rightarrow>
                   (case repair_object json_response of
                      Inl e \<Rightarrow> Inl e
                    | Inr d \<Rightarrow> Inr (Inr d)))
         else Inr (Inl (NoJsonFound (take 500 cleaned_response))))"

definition process_response :: "env \<Rightarrow> string \<Rightarrow> step" where
  "process_response E cleaned_response =
     (case repair E cleaned_response of
        Inl e \<Rightarrow> Raised e
      | Inr (Inl f) \<Rightarrow> Returned (Inl f)
      | Inr (Inr d) \<Rightarrow>
          (case validate d of
             Inl v \<Rightarrow> Raised (ValidationError (validation_message E d))
           | Inr va \<Rightarrow> Returned (Inr va)))"

text \<open>The inner \<open>try\<close> of one attempt (lines 152 to 250).\<close>

definition attempt :: "env \<Rightarrow> nat \<Rightarrow> step" where
  "attempt E i =
     (case generate_content E i of
        Inl e \<Rightarrow> Raised e
      | Inr cleaned_response \<Rightarrow> process_response E cleaned_response)"

subsection \<open>The retry loop (lines 136 to 290)\<close>

text \<open>
  The variables of the loop, and what it does that can be observed: \<open>sleeps\<close> are the
  arguments of \<open>time.sleep\<close> so far, in seconds, and \<open>calls\<close> counts the calls of
  \<open>generate_content\<close>.
\<close>

record loop_state =
  retry_count :: nat
  video_base64 :: "string option"
  sleeps :: "nat list"
  calls :: nat

text \<open>The \<open>finally\<close> clause of line 283, which runs on every way out of the \<open>try\<close>.\<close>

definition finally_clause :: "loop_state \<Rightarrow> loop_state" where
  "finally_clause st = st\<lparr>video_base64 := None\<rparr>"

text \<open>The two tests of the handler on \<open>error_str = str(e).lower()\<close>.\<close>

definition is_quota :: "string \<Rightarrow> bool" where
  "is_quota error_str = (contains ''quota'' error_str \<or> contains ''rate limit'' error_str)"

definition is_too_large :: "string \<Rightarrow> bool" where
  "is_too_large error_str =
     (contains ''too large'' error_str \<or> contains ''size limit'' error_str)"

text \<open>
  One turn of the loop is in the outer \<open>try\<close>. It first decodes \<open>video_base64\<close> (line
  144): \<open>base64.b64decode(None)\<close> raises \<open>TypeError\<close>, which the outer handler turns
  into \<open>return None\<close> (line 281). Then it calls the model and processes the response; the
  handler of line 252 sleeps and continues, leaves the loop, or returns. Creating the
  model object and writing to the log are taken not to raise.
\<close>

function retry_loop :: "env \<Rightarrow> int \<Rightarrow> loop_state \<Rightarrow> (failure + VideoAnalysis) \<times> loop_state" where
  "retry_loop E max_retries st =
     (if int (retry_count st) \<le> max_retries then
        (case video_base64 st of
           None \<Rightarrow> (Inl PreparationError, finally_clause st)
         | Some b \<Rightarrow>
             (case attempt E (retry_count st) of
                Returned r \<Rightarrow> (r, finally_clause (st\<lparr>calls := calls st + 1\<rparr>))
              | Raised e \<Rightarrow>
                  (let error_str = lower (exc_str e)
                   in if is_quota error_str then
                        (if int (retry_count st) < max_retries then
                           retry_loop E max_retries
                             (finally_clause (st\<lparr>calls := calls st + 1,
                                          sleeps := sleeps st @ [2 ^ retry_count st * 5],
                                          retry_count := retry_count st + 1\<rparr>))
                         else (Inl QuotaExhausted, finally_clause (st\<lparr>calls := calls st + 1\<rparr>)))
                      else if is_too_large error_str then
                        (Inl PayloadTooLarge, finally_clause (st\<lparr>calls := calls st + 1\<rparr>))
                      else (Inl Unrecoverable, finally_clause (st\<lparr>calls := calls st + 1\<rparr>)))))
      else (Inl NoAttempt, st))"
  by pat_completeness auto
termination
  by (relation "measure (\<lambda>(E, max_retries, st). nat (max_retries + 1 - int (retry_count st)))")
     (auto simp: finally_clause_def)

text \<open>
  \<open>analyze_video\<close>: \<open>video\<close> is the base64 text of the file at \<open>video_path\<close>, or \<open>None\<close>
  when there is no such file, for which the source raises \<open>FileNotFoundError\<close>.
\<close>

definition analyze_video :: "env \<Rightarrow> string option \<Rightarrow> int \<Rightarrow> (failure + VideoAnalysis) \<times> loop_state" where
  "analyze_video E video max_retries =
     (case video of
        None \<Rightarrow>
          (Inl FileMissing, \<lparr>retry_count = 0, video_base64 = None, sleeps = [], calls = 0\<rparr>)
      | Some b \<Rightarrow>
          retry_loop E max_retries
            \<lparr>retry_count = 0, video_base64 = Some b, sleeps = [], calls = 0\<rparr>)"

section \<open>Auxiliary notions for the properties\<close>

text \<open>
  The effect of one entry of the rename table, between a dictionary and a later one: the
  value moved from the old key to the new one when the old key was there and the new one
  was not, and both keys as they were otherwise.
\<close>

definition renamed :: "string \<Rightarrow> string \<Rightarrow> pydict \<Rightarrow> pydict \<Rightarrow> bool" where
  "renamed old new d d' =
     ((has_key old d \<and> \<not> has_key new d \<longrightarrow>
        map_of d' new = map_of d old \<and> \<not> has_key old d')
     \<and> (\<not> (has_key old d \<and> \<not> has_key new d) \<longrightarrow>
        map_of d' new = map_of d new \<and> map_of d' old = map_of d old))"

section \<open>The JSON form of an analysis\<close>

text \<open>
  What \<open>model_dump\<close> in JSON mode gives for a validated model (the controller writes it
  with \<open>model_dump_json\<close>): the declared fields in the order of the class, then the
  extra entries; a pair is a list of two strings and \<open>None\<close> is \<open>null\<close>.
\<close>

definition dump_str_list :: "string list \<Rightarrow> json" where
  "dump_str_list xs = JArray (map JString xs)"

definition dump_pair :: "string \<times> string \<Rightarrow> json" where
  "dump_pair p = JArray [JString (fst p), JString (snd p)]"

definition dump_MusicRecommendation :: "MusicRecommendation \<Rightarrow> json" where
  "dump_MusicRecommendation r =
     JObject ([(''nombre_cancion'', JString (nombre_cancion r)),
               (''artista'', JString (artista r))] @ extra_recommendation r)"

definition dump_MusicInfo :: "MusicInfo \<Rightarrow> json" where
  "dump_MusicInfo m =
     JObject ([(''hay_musica'', JBool (hay_musica m)),
               (''recomendacion'',
                case recomendacion m of None \<Rightarrow> JNull | Some r \<Rightarrow> dump_MusicRecommendation r)]
              @ extra_music m)"

definition dump_DialogInfo :: "DialogInfo \<Rightarrow> json" where
  "dump_DialogInfo i =
     JObject ([(''hay_dialogo'', JBool (hay_dialogo i)),
               (''dialogo'',
                case dialogo_list i of None \<Rightarrow> JNull | Some ps \<Rightarrow> JArray (map dump_pair ps))]
              @ extra_dialog i)"

definition model_dump :: "VideoAnalysis \<Rightarrow> pydict" where
  "model_dump va =
     [(''descripcion_original'', JString (descripcion_original va)),
      (''titulo_portada'', JString (titulo_portada va)),
      (''idea_video'', JString (idea_video va)),
      (''gancho_video'', JString (gancho_video va)),
      (''acciones'', dump_str_list (acciones va)),
      (''dialogo'', dump_DialogInfo (dialogo va)),
      (''musica'', dump_MusicInfo (musica va)),
      (''expectativas_cumplidas'', JString (expectativas_cumplidas va)),
      (''caption_video'', JString (caption_video va)),
      (''hashtags'', case hashtags va of None \<Rightarrow> JNull | Some hs \<Rightarrow> dump_str_list hs)]
     @ extra va"

text \<open>
  The extra entries of a model are entries that are not declared fields; this is so for
  every model that validation builds.
\<close>

definition extras_only :: "string list \<Rightarrow> pydict \<Rightarrow> bool" where
  "extras_only names d = (extras names d = d)"

definition well_formed :: "VideoAnalysis \<Rightarrow> bool" where
  "well_formed va =
     (extras_only field_names (extra va)
      \<and> extras_only [''hay_dialogo'', ''dialogo''] (extra_dialog (dialogo va))
      \<and> extras_only [''hay_musica'', ''recomendacion''] (extra_music (musica va))
      \<and> (case recomendacion (musica va) of
            None \<Rightarrow> True
          | Some r \<Rightarrow> extras_only [''nombre_cancion'', ''artista''] (extra_recommendation r)))"

section \<open>Example inputs\<close>

text \<open>
  A response that has every field of the schema, with the dictionary that \<open>json.loads\<close>
  returns for it, and the same response without its \<open>hashtags\<close> entry.
\<close>

definition complete_text :: string where
  \<open>complete_text =
     ''{"descripcion_original": "d", "titulo_portada": "t", "idea_video": "i", '' @
     ''"gancho_video": "g", "acciones": ["a"], '' @
     ''"dialogo": {"hay_dialogo": true, "dialogo": [["A", "hola"]]}, '' @
     ''"musica": {"hay_musica": false, "recomendacion": null}, '' @
     ''"expectativas_cumplidas": "e", "caption_video": "c #x", "hashtags": ["#h"]}''\<close>

definition complete_object :: pydict where
  "complete_object =
     [(''descripcion_original'', JString ''d''),
      (''titulo_portada'', JString ''t''),
      (''idea_video'', JString ''i''),
      (''gancho_video'', JString ''g''),
      (''acciones'', JArray [JString ''a'']),
      (''dialogo'', JObject [(''hay_dialogo'', JBool True),
                            (''dialogo'', JArray [JArray [JString ''A'', JString ''hola'']])]),
      (''musica'', JObject [(''hay_musica'', JBool False), (''recomendacion'', JNull)]),
      (''expectativas_cumplidas'', JString ''e''),
      (''caption_video'', JString ''c #x''),
      (''hashtags'', JArray [JString ''#h''])]"

definition text_without_hashtags :: string where
  \<open>text_without_hashtags =
     ''{"descripcion_original": "d", "titulo_portada": "t", "idea_video": "i", '' @
     ''"gancho_video": "g", "acciones": ["a"], '' @
     ''"dialogo": {"hay_dialogo": true, "dialogo": [["A", "hola"]]}, '' @
     ''"musica": {"hay_musica": false, "recomendacion": null}, '' @
     ''"expectativas_cumplidas": "e", "caption_video": "c #x"}''\<close>

definition object_without_hashtags :: pydict where
  "object_without_hashtags = butlast complete_object"

text \<open>The \<open>VideoAnalysis\<close> of the complete response.\<close>

definition complete_analysis :: VideoAnalysis where
  "complete_analysis =
     \<lparr>descripcion_original = ''d'', titulo_portada = ''t'', idea_video = ''i'',
      gancho_video = ''g'', acciones = [''a''],
      dialogo = \<lparr>hay_dialogo = True, dialogo_list = Some [(''A'', ''hola'')],
                 extra_dialog = []\<rparr>,
      musica = \<lparr>hay_musica = False, recomendacion = None, extra_music = []\<rparr>,
      expectativas_cumplidas = ''e'', caption_video = ''c #x'', hashtags = Some [''#h''],
      extra = []\<rparr>"

text \<open>
  A response whose only value is an integer of 4301 digits, and the message of the
  \<open>ValueError\<close> that \<open>json.loads\<close> raises for it.
\<close>

definition big_integer_text :: string where
  \<open>big_integer_text = ''{"n": '' @ replicate 4301 CHR ''1'' @ ''}''\<close>

definition integer_limit_message :: string where
  "integer_limit_message =
     ''Exceeds the limit (4300 digits) for integer string conversion: '' @
     ''value has 4301 digits; use sys.set_int_max_str_digits() to increase the limit''"

text \<open>\<open>json.loads\<close> on the example texts; any other text is taken not to be JSON.\<close>

definition example_loads :: "string \<Rightarrow> loaded" where
  "example_loads s =
     (if s = complete_text then Loaded complete_object
      else if s = text_without_hashtags then Loaded object_without_hashtags
      else if s = big_integer_text then LoadsRaised (ValueError integer_limit_message)
      else JSONDecodeError)"

text \<open>A remote model that answers every attempt with the complete response.\<close>

definition example_env :: env where
  "example_env =
     \<lparr>json_loads = example_loads,
      validation_message = (\<lambda>d. ''1 validation error for VideoAnalysis''),
      generate_content = (\<lambda>i. Inr complete_text)\<rparr>"


text \<open>
  A remote model that answers the attempts 0 and 1 with a quota error and the attempt 2
  with the complete response.
\<close>

definition quota_then_success :: env where
  "quota_then_success =
     \<lparr>json_loads = example_loads,
      validation_message = (\<lambda>d. ''1 validation error for VideoAnalysis''),
      generate_content =
        (\<lambda>i. if i < 2 then Inl (ApiError ''429 Resource has been exhausted (e.g. check quota).'')
             else Inr complete_text)\<rparr>"

section \<open>Properties of the dictionary steps\<close>

lemma has_key_update: "has_key k (AList.update k' v d) = (k = k' \<or> has_key k d)"
  by (simp add: has_key_def update_conv')

lemma has_key_delete: "has_key k (AList.delete k' d) = (k \<noteq> k' \<and> has_key k d)"
  by (simp add: has_key_def delete_conv')

lemma map_of_rename_field:
  "map_of (rename_field (old, new) d) k =
     (if has_key old d \<and> \<not> has_key new d
      then (if k = new then map_of d old else if k = old then None else map_of d k)
      else map_of d k)"
  by (auto simp: has_key_def update_conv' delete_conv' split: option.splits)

declare rename_field.simps [simp del]

lemma has_key_rename_field:
  "has_key k (rename_field (old, new) d) =
     (if has_key old d \<and> \<not> has_key new d
      then (k = new \<or> (k \<noteq> old \<and> has_key k d))
      else has_key k d)"
  unfolding has_key_def[of k] map_of_rename_field by (auto simp: has_key_def)

lemma apply_field_mapping_unfold:
  "apply_field_mapping d =
     rename_field (''caption'', ''caption_video'')
       (rename_field (''gancho_inicial'', ''gancho_video'')
         (rename_field (''titulo'', ''titulo_portada'') d))"
  by (simp add: apply_field_mapping_def field_mapping_def)

lemma map_of_fold_update:
  "map_of (fold (\<lambda>f. AList.update f (g f)) fs d) k =
     (if k \<in> set fs then Some (g k) else map_of d k)"
  by (induction fs arbitrary: d) (auto simp: update_conv')

lemma fill_field_eq:
  "fill_field =
     (\<lambda>f. AList.update f (if f = ''hashtags'' then default_hashtags else placeholder))"
  by (auto simp: fill_field_def fun_eq_iff)

lemma set_missing_fields:
  "set (missing_fields d) = {f \<in> set required_fields. \<not> has_key f d}"
  by (auto simp: missing_fields_def)

lemma hashtags_not_required: "''hashtags'' \<notin> set required_fields"
  by (simp add: required_fields_def)

lemma map_of_fill_missing_fields:
  "map_of (fill_missing_fields d) k =
     (if k \<in> set required_fields \<and> \<not> has_key k d then Some placeholder else map_of d k)"
proof -
  have "map_of (fold fill_field (missing_fields d) d) k =
     (if k \<in> set required_fields \<and> \<not> has_key k d then Some placeholder else map_of d k)"
    unfolding fill_field_eq map_of_fold_update set_missing_fields
    using hashtags_not_required by auto
  moreover have "missing_fields d = [] \<Longrightarrow> \<not> (k \<in> set required_fields \<and> \<not> has_key k d)"
    using set_missing_fields[of d] by auto
  ultimately show ?thesis
    by (auto simp: fill_missing_fields_def Let_def)
qed

lemma has_key_fill_missing_fields:
  "has_key k (fill_missing_fields d) = (k \<in> set required_fields \<or> has_key k d)"
  unfolding has_key_def[of k "fill_missing_fields d"] map_of_fill_missing_fields
  by (auto simp: has_key_def placeholder_def)

lemma map_of_rename_field_other:
  "k \<noteq> old \<Longrightarrow> k \<noteq> new \<Longrightarrow> map_of (rename_field (old, new) d) k = map_of d k"
  by (simp add: map_of_rename_field)

lemma has_key_rename_field_other:
  "k \<noteq> old \<Longrightarrow> k \<noteq> new \<Longrightarrow> has_key k (rename_field (old, new) d) = has_key k d"
  by (simp add: has_key_def map_of_rename_field_other)

lemma map_of_apply_field_mapping_other:
  "k \<notin> fst ` set field_mapping \<Longrightarrow> k \<notin> snd ` set field_mapping \<Longrightarrow>
   map_of (apply_field_mapping d) k = map_of d k"
  by (simp add: apply_field_mapping_unfold map_of_rename_field_other field_mapping_def)

lemma map_of_ensure_hashtags_other:
  "ensure_hashtags d = Inr d' \<Longrightarrow> k \<noteq> ''hashtags'' \<Longrightarrow> map_of d' k = map_of d k"
  by (auto simp: ensure_hashtags_def Let_def update_conv'
           split: if_splits option.splits json.splits)

lemma ensure_hashtags_present: "has_key ''hashtags'' d \<Longrightarrow> ensure_hashtags d = Inr d"
  by (simp add: ensure_hashtags_def)

lemma sweep_fold_placeholder:
  "fold fill_field (missing_fields d) d =
   fold (\<lambda>field. AList.update field placeholder) (missing_fields d) d"
proof (rule fold_cong)
  fix x assume "x \<in> set (missing_fields d)"
  then have "x \<noteq> ''hashtags''"
    using hashtags_not_required by (auto simp: set_missing_fields)
  then show "fill_field x = AList.update x placeholder"
    by (simp add: fill_field_eq)
qed simp_all

lemma rename_field_moves:
  "has_key old d \<Longrightarrow> \<not> has_key new d \<Longrightarrow>
   map_of (rename_field (old, new) d) new = map_of d old
   \<and> \<not> has_key old (rename_field (old, new) d)"
  by (auto simp: has_key_rename_field map_of_rename_field)

lemma rename_field_keeps:
  "\<not> (has_key old d \<and> \<not> has_key new d) \<Longrightarrow> rename_field (old, new) d = d"
  by (auto simp: rename_field.simps has_key_def split: option.splits)

lemma renamed_rename_field: "renamed old new d (rename_field (old, new) d)"
  unfolding renamed_def
  using rename_field_moves[of old d new] rename_field_keeps[of old d new]
  by auto

lemma renamed_cong:
  "renamed old new d d' \<Longrightarrow> map_of e old = map_of d old \<Longrightarrow> map_of e new = map_of d new \<Longrightarrow>
   map_of e' old = map_of d' old \<Longrightarrow> map_of e' new = map_of d' new \<Longrightarrow> renamed old new e e'"
  by (simp add: renamed_def has_key_def)

lemma renamed_titulo: "renamed ''titulo'' ''titulo_portada'' d (apply_field_mapping d)"
  unfolding apply_field_mapping_unfold
  by (rule renamed_cong[OF renamed_rename_field[of "''titulo''" "''titulo_portada''" d]])
     (simp_all add: map_of_rename_field_other)

lemma renamed_gancho: "renamed ''gancho_inicial'' ''gancho_video'' d (apply_field_mapping d)"
  unfolding apply_field_mapping_unfold
  by (rule renamed_cong[OF renamed_rename_field[of "''gancho_inicial''" "''gancho_video''"
            "rename_field (''titulo'', ''titulo_portada'') d"]])
     (simp_all add: map_of_rename_field_other)

lemma renamed_caption: "renamed ''caption'' ''caption_video'' d (apply_field_mapping d)"
  unfolding apply_field_mapping_unfold
  by (rule renamed_cong[OF renamed_rename_field[of "''caption''" "''caption_video''"
            "rename_field (''gancho_inicial'', ''gancho_video'')
               (rename_field (''titulo'', ''titulo_portada'') d)"]])
     (simp_all add: map_of_rename_field_other)

section \<open>The claims\<close>

subsection \<open>C10: the sweep and the hashtags field\<close>

text \<open>
  C10. The default-fill sweep never assigns the \<open>hashtags\<close> field. The key is not in the
  list of required fields that the sweep checks, so it is never among the missing fields
  and the branch of the sweep that would assign the default hashtags is never taken: the
  sweep is the fold that writes the string placeholder to each missing field. The sweep
  leaves the value of \<open>hashtags\<close> as it found it, every key whose value the sweep changes
  is a required field that now holds the placeholder, and after aliasing and sweep the
  value of \<open>hashtags\<close> is still the one of the input object (or still absent), so that
  only the input or the later inference step gives it a value.
\<close>

theorem sweep_never_assigns_hashtags:
  "''hashtags'' \<notin> set (missing_fields d)
   \<and> fill_missing_fields d =
       fold (\<lambda>field. AList.update field placeholder) (missing_fields d) d
   \<and> map_of (fill_missing_fields d) ''hashtags'' = map_of d ''hashtags''
   \<and> (\<forall>k. map_of (fill_missing_fields d) k \<noteq> map_of d k \<longrightarrow>
           k \<in> set required_fields \<and> map_of (fill_missing_fields d) k = Some placeholder)
   \<and> map_of (fill_missing_fields (apply_field_mapping d)) ''hashtags'' = map_of d ''hashtags''"
proof (intro conjI)
  show "''hashtags'' \<notin> set (missing_fields d)"
    using hashtags_not_required by (simp add: set_missing_fields)
  show "fill_missing_fields d =
       fold (\<lambda>field. AList.update field placeholder) (missing_fields d) d"
    using sweep_fold_placeholder[of d] by (simp add: fill_missing_fields_def Let_def)
  show "map_of (fill_missing_fields d) ''hashtags'' = map_of d ''hashtags''"
    using hashtags_not_required by (simp add: map_of_fill_missing_fields)
  show "\<forall>k. map_of (fill_missing_fields d) k \<noteq> map_of d k \<longrightarrow>
           k \<in> set required_fields \<and> map_of (fill_missing_fields d) k = Some placeholder"
    by (simp add: map_of_fill_missing_fields)
  show "map_of (fill_missing_fields (apply_field_mapping d)) ''hashtags'' = map_of d ''hashtags''"
    using hashtags_not_required
    by (simp add: map_of_fill_missing_fields map_of_apply_field_mapping_other field_mapping_def)
qed

theorem sweep_never_assigns_hashtags_witness:
  "map_of (fill_missing_fields [(''idea_video'', JString ''x'')]) ''hashtags'' = None
   \<and> ''hashtags'' \<notin> set (missing_fields [(''idea_video'', JString ''x'')])"
proof -
  have "map_of (fill_missing_fields [(''idea_video'', JString ''x'')]) ''hashtags''
          = map_of [(''idea_video'', JString ''x'')] ''hashtags''"
    and "''hashtags'' \<notin> set (missing_fields [(''idea_video'', JString ''x'')])"
    using sweep_never_assigns_hashtags [of "[(''idea_video'', JString ''x'')]"] by blast+
  then show ?thesis by simp
qed

subsection \<open>The rename table, at the aliasing step\<close>

text \<open>
  For each entry of the rename table: when the old key is in the parsed object and the
  new key is not, the aliasing step gives the new key the value of the old key and
  removes the old key; in every other case, in particular when the new key is already
  there, the values of the new key and of the old key are what they were.
\<close>

lemma alias_rename:
  "\<forall>(old_field, new_field) \<in> set field_mapping.
     (has_key old_field d \<and> \<not> has_key new_field d \<longrightarrow>
        map_of (apply_field_mapping d) new_field = map_of d old_field
        \<and> \<not> has_key old_field (apply_field_mapping d))
     \<and> (\<not> (has_key old_field d \<and> \<not> has_key new_field d) \<longrightarrow>
        map_of (apply_field_mapping d) new_field = map_of d new_field
        \<and> map_of (apply_field_mapping d) old_field = map_of d old_field)"
  using renamed_titulo[of d] renamed_gancho[of d] renamed_caption[of d]
  unfolding renamed_def field_mapping_def by simp

lemma alias_rename_example:
  "(''titulo'', ''titulo_portada'') \<in> set field_mapping
   \<and> has_key ''titulo'' [(''titulo'', JString ''T'')]
   \<and> \<not> has_key ''titulo_portada'' [(''titulo'', JString ''T'')]
   \<and> map_of (apply_field_mapping [(''titulo'', JString ''T'')]) ''titulo_portada''
       = Some (JString ''T'')
   \<and> \<not> has_key ''titulo'' (apply_field_mapping [(''titulo'', JString ''T'')])"
proof -
  have m: "(''titulo'', ''titulo_portada'') \<in> set field_mapping"
    by (simp add: field_mapping_def)
  have h: "has_key ''titulo'' [(''titulo'', JString ''T'')]
           \<and> \<not> has_key ''titulo_portada'' [(''titulo'', JString ''T'')]"
    by (simp add: has_key_def)
  from alias_rename [of "[(''titulo'', JString ''T'')]"] m h
  have "map_of (apply_field_mapping [(''titulo'', JString ''T'')]) ''titulo_portada''
          = map_of [(''titulo'', JString ''T'')] ''titulo''
        \<and> \<not> has_key ''titulo'' (apply_field_mapping [(''titulo'', JString ''T'')])"
    by blast
  with m h show ?thesis by simp
qed

subsection \<open>C4: the required fields after repair\<close>

text \<open>
  C4, as the code has it. For every parsed object, after the aliasing step and the sweep
  every required field (the nine keys of the sweep's list, which are the required fields
  of the schema) is a key of the object: a field that is absent after aliasing holds the
  placeholder string \<open>No especificado\<close>, whatever the type the schema gives the field,
  and a field that is present keeps its value, an empty one included. When the repair
  returns an object, the required fields hold these same values in it. (The sweep never
  assigns \<open>hashtags\<close>, which is not a required field.)
\<close>

theorem required_fields_after_repair:
  "\<forall>field \<in> set required_fields.
     has_key field (fill_missing_fields (apply_field_mapping d))
     \<and> map_of (fill_missing_fields (apply_field_mapping d)) field =
         (case map_of (apply_field_mapping d) field of
            None \<Rightarrow> Some placeholder
          | Some v \<Rightarrow> Some v)
     \<and> (\<forall>d'. repair_object d = Inr d' \<longrightarrow>
           map_of d' field = map_of (fill_missing_fields (apply_field_mapping d)) field)"
proof (intro ballI conjI allI impI)
  fix field assume f: "field \<in> set required_fields"
  show "has_key field (fill_missing_fields (apply_field_mapping d))"
    using f by (simp add: has_key_fill_missing_fields)
  show "map_of (fill_missing_fields (apply_field_mapping d)) field =
         (case map_of (apply_field_mapping d) field of
            None \<Rightarrow> Some placeholder
          | Some v \<Rightarrow> Some v)"
    using f by (auto simp: map_of_fill_missing_fields has_key_def split: option.splits)
  fix d' assume "repair_object d = Inr d'"
  moreover have "field \<noteq> ''hashtags''"
    using f hashtags_not_required by auto
  ultimately show "map_of d' field = map_of (fill_missing_fields (apply_field_mapping d)) field"
    unfolding repair_object_def by (rule map_of_ensure_hashtags_other)
qed

theorem required_fields_after_repair_witness:
  "''acciones'' \<in> set required_fields
   \<and> map_of (fill_missing_fields (apply_field_mapping [(''titulo'', JString '''')]))
        ''acciones'' = Some (JString ''No especificado'')
   \<and> map_of (fill_missing_fields (apply_field_mapping [(''titulo'', JString '''')]))
        ''titulo_portada'' = Some (JString '''')"
proof -
  have a: "''acciones'' \<in> set required_fields" and t: "''titulo_portada'' \<in> set required_fields"
    by (simp_all add: required_fields_def)
  have m: "map_of (apply_field_mapping [(''titulo'', JString '''')]) ''acciones'' = None"
    "map_of (apply_field_mapping [(''titulo'', JString '''')]) ''titulo_portada''
       = Some (JString '''')"
    by (simp_all add: apply_field_mapping_unfold rename_field.simps has_key_def)
  from required_fields_after_repair [of "[(''titulo'', JString '''')]"] a t
  have "map_of (fill_missing_fields (apply_field_mapping [(''titulo'', JString '''')]))
          ''acciones'' =
         (case map_of (apply_field_mapping [(''titulo'', JString '''')]) ''acciones'' of
            None \<Rightarrow> Some placeholder | Some v \<Rightarrow> Some v)"
    and "map_of (fill_missing_fields (apply_field_mapping [(''titulo'', JString '''')]))
          ''titulo_portada'' =
         (case map_of (apply_field_mapping [(''titulo'', JString '''')]) ''titulo_portada'' of
            None \<Rightarrow> Some placeholder | Some v \<Rightarrow> Some v)"
    by blast+
  with a m show ?thesis by (simp add: placeholder_def)
qed

text \<open>
  The claim as stated asks for every required field to be non-empty after repair. The
  code never looks at the value of a field that is present: an object whose
  \<open>descripcion_original\<close> is the empty string keeps it through the repair.
\<close>

theorem required_field_stays_empty_counterexample:
  "repair_object [(''descripcion_original'', JString '''')] =
     Inr [(''descripcion_original'', JString ''''),
          (''titulo_portada'', JString ''No especificado''),
          (''idea_video'', JString ''No especificado''),
          (''gancho_video'', JString ''No especificado''),
          (''acciones'', JString ''No especificado''),
          (''dialogo'', JString ''No especificado''),
          (''musica'', JString ''No especificado''),
          (''expectativas_cumplidas'', JString ''No especificado''),
          (''caption_video'', JString ''No especificado''),
          (''hashtags'',
           JArray [JString ''#BarentBarefoot'', JString ''#EntrenamientoNatural'',
                   JString ''#CuerpoFuerte''])]"
  by (simp add: repair_object_def ensure_hashtags_def fill_missing_fields_def
        missing_fields_def required_fields_def fill_field_def apply_field_mapping_unfold
        rename_field.simps has_key_def placeholder_def default_hashtags_def split_def
        is_space_def Let_def)

section \<open>Properties of the extraction of the JSON text\<close>


lemma find_from_first: "c \<notin> set pre \<Longrightarrow> find_from c (pre @ c # rest) i = i + int (length pre)"
  by (induction pre arbitrary: i) auto


lemma find_first: "c \<notin> set pre \<Longrightarrow> find_str c (pre @ c # rest) = int (length pre)"
  by (simp add: find_str_def find_from_first)

lemma rfind_from_absent: "c \<notin> set s \<Longrightarrow> rfind_from c s i best = best"
  by (induction s arbitrary: i best) auto

lemma rfind_from_last:
  "c \<notin> set post \<Longrightarrow> rfind_from c (front @ c # post) i best = i + int (length front)"
  by (induction front arbitrary: i best) (auto simp: rfind_from_absent)


lemma rfind_last: "c \<notin> set post \<Longrightarrow> rfind_str c (front @ c # post) = int (length front)"
  by (simp add: rfind_str_def rfind_from_last)

lemma slice_span:
  "slice (pre @ a # mid @ b # post) (int (length pre)) (int (length (pre @ a # mid)) + 1)
     = a # mid @ [b]"
proof -
  have "nat (int (length (pre @ a # mid)) + 1) - nat (int (length pre)) = Suc (Suc (length mid))"
    by simp
  then show ?thesis
    unfolding slice_def by simp
qed

lemma span_indices:
  assumes "raw = pre @ a # mid @ b # post" "a \<notin> set pre" "b \<notin> set post"
  shows "find_str a raw = int (length pre)" "rfind_str b raw = int (length (pre @ a # mid))"
proof -
  show "find_str a raw = int (length pre)"
    using assms by (simp add: find_first)
  have "raw = (pre @ a # mid) @ b # post" using assms by simp
  then show "rfind_str b raw = int (length (pre @ a # mid))"
    using assms(3) rfind_last by metis
qed



section \<open>Properties of the retry loop\<close>

declare retry_loop.simps [simp del]

lemma retry_loop_no_payload:
  "video_base64 st = None \<Longrightarrow>
   retry_loop E max_retries st =
     (if int (retry_count st) \<le> max_retries then (Inl PreparationError, finally_clause st)
      else (Inl NoAttempt, st))"
  by (subst retry_loop.simps) simp

lemma retry_loop_returned:
  "int (retry_count st) \<le> max_retries \<Longrightarrow> video_base64 st = Some b \<Longrightarrow>
   attempt E (retry_count st) = Returned r \<Longrightarrow>
   retry_loop E max_retries st = (r, finally_clause (st\<lparr>calls := calls st + 1\<rparr>))"
  by (subst retry_loop.simps) simp

lemma retry_loop_too_large:
  "int (retry_count st) \<le> max_retries \<Longrightarrow> video_base64 st = Some b \<Longrightarrow>
   attempt E (retry_count st) = Raised e \<Longrightarrow>
   \<not> is_quota (lower (exc_str e)) \<Longrightarrow> is_too_large (lower (exc_str e)) \<Longrightarrow>
   retry_loop E max_retries st =
     (Inl PayloadTooLarge, finally_clause (st\<lparr>calls := calls st + 1\<rparr>))"
  by (subst retry_loop.simps) (simp add: Let_def)

lemma retry_loop_other:
  "int (retry_count st) \<le> max_retries \<Longrightarrow> video_base64 st = Some b \<Longrightarrow>
   attempt E (retry_count st) = Raised e \<Longrightarrow>
   \<not> is_quota (lower (exc_str e)) \<Longrightarrow> \<not> is_too_large (lower (exc_str e)) \<Longrightarrow>
   retry_loop E max_retries st =
     (Inl Unrecoverable, finally_clause (st\<lparr>calls := calls st + 1\<rparr>))"
  by (subst retry_loop.simps) (simp add: Let_def)

lemma retry_loop_quota_exhausted:
  "int (retry_count st) = max_retries \<Longrightarrow> video_base64 st = Some b \<Longrightarrow>
   attempt E (retry_count st) = Raised e \<Longrightarrow> is_quota (lower (exc_str e)) \<Longrightarrow>
   retry_loop E max_retries st =
     (Inl QuotaExhausted, finally_clause (st\<lparr>calls := calls st + 1\<rparr>))"
  by (subst retry_loop.simps) (simp add: Let_def)

lemma retry_loop_quota_retry:
  assumes "int (retry_count st) < max_retries" "video_base64 st = Some b"
    "attempt E (retry_count st) = Raised e" "is_quota (lower (exc_str e))"
  shows "retry_loop E max_retries st =
     (Inl PreparationError,
      st\<lparr>calls := calls st + 1, sleeps := sleeps st @ [2 ^ retry_count st * 5],
         retry_count := retry_count st + 1, video_base64 := None\<rparr>)"
proof -
  let ?st' = "finally_clause (st\<lparr>calls := calls st + 1,
                 sleeps := sleeps st @ [2 ^ retry_count st * 5],
                 retry_count := retry_count st + 1\<rparr>)"
  have "retry_loop E max_retries st = retry_loop E max_retries ?st'"
    using assms by (subst retry_loop.simps) (simp add: Let_def)
  also have "\<dots> = (Inl PreparationError, finally_clause ?st')"
    using assms(1) by (subst retry_loop_no_payload) (simp_all add: finally_clause_def)
  finally show ?thesis by (simp add: finally_clause_def)
qed

section \<open>The example inputs, evaluated\<close>

lemma find_complete_text: "find_str CHR ''{'' complete_text = 0"
  by (simp add: find_str_def complete_text_def)

lemma rfind_complete_text: "rfind_str CHR ''}'' complete_text = 304"
  by (simp add: rfind_str_def complete_text_def)

lemma slice_complete_text: "slice complete_text 0 305 = complete_text"
  by (simp add: slice_def complete_text_def)

lemma repair_object_complete: "repair_object complete_object = Inr complete_object"
  by (simp add: repair_object_def ensure_hashtags_def fill_missing_fields_def
        missing_fields_def required_fields_def apply_field_mapping_unfold
        rename_field.simps has_key_def complete_object_def)

lemma validate_complete: "validate complete_object = Inr complete_analysis"
  by (simp add: validate_def validate_fields_def required_def with_default_def
        valid_optional_def validate_DialogInfo_def validate_MusicInfo_def extras_def
        field_names_def complete_object_def complete_analysis_def)

lemma process_complete_text:
  "process_response quota_then_success complete_text = Returned (Inr complete_analysis)"
  by (simp add: process_response_def repair_def find_complete_text rfind_complete_text
        slice_complete_text quota_then_success_def example_loads_def
        repair_object_complete validate_complete)

lemma attempt_raises: "generate_content E i = Inl e \<Longrightarrow> attempt E i = Raised e"
  by (simp add: attempt_def)

lemma analyze_video_calls_at_most_once:
  "calls (snd (analyze_video E video max_retries)) \<le> 1"
proof (cases video)
  case None
  then show ?thesis by (simp add: analyze_video_def)
next
  case (Some b)
  let ?st = "\<lparr>retry_count = 0, video_base64 = Some b, sleeps = [], calls = 0\<rparr>"
  have eq: "analyze_video E video max_retries = retry_loop E max_retries ?st"
    using Some by (simp add: analyze_video_def)
  show ?thesis
  proof (cases "0 \<le> max_retries")
    case False
    then show ?thesis unfolding eq by (subst retry_loop.simps) simp
  next
    case enter: True
    show ?thesis
    proof (cases "attempt E 0")
      case (Returned r)
      then show ?thesis
        unfolding eq using enter retry_loop_returned[of ?st max_retries b E r]
        by (simp add: finally_clause_def)
    next
      case (Raised e)
      consider (retry) "is_quota (lower (exc_str e))" "0 < max_retries"
        | (exhausted) "is_quota (lower (exc_str e))" "max_retries = 0"
        | (large) "\<not> is_quota (lower (exc_str e))" "is_too_large (lower (exc_str e))"
        | (other) "\<not> is_quota (lower (exc_str e))" "\<not> is_too_large (lower (exc_str e))"
        using enter by fastforce
      then show ?thesis
      proof cases
        case retry
        then show ?thesis
          unfolding eq using Raised retry_loop_quota_retry[of ?st max_retries b E e] by simp
      next
        case exhausted
        then show ?thesis
          unfolding eq using Raised retry_loop_quota_exhausted[of ?st max_retries b E e]
          by (simp add: finally_clause_def)
      next
        case large
        then show ?thesis
          unfolding eq using Raised enter retry_loop_too_large[of ?st max_retries b E e]
          by (simp add: finally_clause_def)
      next
        case other
        then show ?thesis
          unfolding eq using Raised enter retry_loop_other[of ?st max_retries b E e]
          by (simp add: finally_clause_def)
      qed
    qed
  qed
qed

lemma quota_retry_never_calls_again:
  assumes "1 \<le> max_retries" "attempt E 0 = Raised e" "is_quota (lower (exc_str e))"
  shows "analyze_video E (Some b) max_retries =
     (Inl PreparationError, \<lparr>retry_count = 1, video_base64 = None, sleeps = [5], calls = 1\<rparr>)"
  unfolding analyze_video_def
  using assms
    retry_loop_quota_retry[of "\<lparr>retry_count = 0, video_base64 = Some b, sleeps = [], calls = 0\<rparr>"
      max_retries b E e]
  by simp

subsection \<open>C2: a payload that is too large\<close>

text \<open>
  C2. When the remote call raises an error that the handler takes for a size error (its
  message, in lower case, has none of the quota phrases and has \<open>too large\<close> or
  \<open>size limit\<close>), the loop ends at once with \<open>PayloadTooLarge\<close>: this turn's call is
  the only one it adds, nothing is slept and the retry counter is not advanced. For
  \<open>analyze_video\<close> as a whole, with such an error at the first call: exactly one call, no
  sleep, \<open>PayloadTooLarge\<close>.
\<close>

theorem payload_too_large_aborts:
  assumes "\<not> is_quota (lower (exc_str e))" and "is_too_large (lower (exc_str e))"
  shows "(int (retry_count st) \<le> max_retries \<and> video_base64 st = Some b
            \<and> generate_content E (retry_count st) = Inl e \<longrightarrow>
          retry_loop E max_retries st =
            (Inl PayloadTooLarge, st\<lparr>calls := calls st + 1, video_base64 := None\<rparr>))
       \<and> (0 \<le> max_retries \<and> generate_content E 0 = Inl e \<longrightarrow>
          analyze_video E (Some b) max_retries =
            (Inl PayloadTooLarge,
             \<lparr>retry_count = 0, video_base64 = None, sleeps = [], calls = 1\<rparr>))"
proof (intro conjI impI)
  assume "int (retry_count st) \<le> max_retries \<and> video_base64 st = Some b
            \<and> generate_content E (retry_count st) = Inl e"
  then show "retry_loop E max_retries st =
            (Inl PayloadTooLarge, st\<lparr>calls := calls st + 1, video_base64 := None\<rparr>)"
    using assms retry_loop_too_large[of st max_retries b E e] attempt_raises[of E "retry_count st" e]
    by (simp add: finally_clause_def)
next
  assume "0 \<le> max_retries \<and> generate_content E 0 = Inl e"
  then show "analyze_video E (Some b) max_retries =
            (Inl PayloadTooLarge,
             \<lparr>retry_count = 0, video_base64 = None, sleeps = [], calls = 1\<rparr>)"
    unfolding analyze_video_def
    using assms attempt_raises[of E 0 e]
      retry_loop_too_large[of "\<lparr>retry_count = 0, video_base64 = Some b, sleeps = [], calls = 0\<rparr>"
        max_retries b E e]
    by (simp add: finally_clause_def)
qed

theorem payload_too_large_aborts_witness:
  "analyze_video
     \<lparr>json_loads = example_loads, validation_message = (\<lambda>d. []),
      generate_content = (\<lambda>i. Inl (ApiError ''413 Request Entity Too Large''))\<rparr>
     (Some ''AAAA'') 3 =
   (Inl PayloadTooLarge, \<lparr>retry_count = 0, video_base64 = None, sleeps = [], calls = 1\<rparr>)"
proof -
  let ?E = "\<lparr>json_loads = example_loads, validation_message = (\<lambda>d. []),
      generate_content = (\<lambda>i. Inl (ApiError ''413 Request Entity Too Large''))\<rparr>"
  have q: "\<not> is_quota (lower (exc_str (ApiError ''413 Request Entity Too Large'')))"
    by (simp add: is_quota_def lower_def lower_char_def)
  have l: "is_too_large (lower (exc_str (ApiError ''413 Request Entity Too Large'')))"
    by (simp add: is_too_large_def lower_def lower_char_def)
  have g: "(0::int) \<le> 3 \<and> generate_content ?E 0 = Inl (ApiError ''413 Request Entity Too Large'')"
    by simp
  from payload_too_large_aborts [OF q l, where max_retries = 3 and E = ?E and b = "''AAAA''"] g
  show ?thesis by blast
qed

subsection \<open>C1: retries after a quota error\<close>

text \<open>
  C1, the code at the input of the claim. With \<open>max_retries = 3\<close> and a model that
  answers the attempts 0 and 1 with a quota error and the attempt 2 with a complete
  response, \<open>analyze_video\<close> sleeps 5 seconds once and then returns \<open>None\<close> from the
  outer handler, having called the model once. The \<open>finally\<close> clause sets
  \<open>video_base64\<close> to \<open>None\<close> on the way to the second turn, whose
  \<open>base64.b64decode\<close> raises before any call; the attempt 2, which would return the
  analysis, is never made.
\<close>

theorem retry_after_quota_evaluation:
  "analyze_video quota_then_success (Some ''AAAA'') 3 =
     (Inl PreparationError, \<lparr>retry_count = 1, video_base64 = None, sleeps = [5], calls = 1\<rparr>)
   \<and> attempt quota_then_success 2 = Returned (Inr complete_analysis)"
proof
  have r: "attempt quota_then_success 0
             = Raised (ApiError ''429 Resource has been exhausted (e.g. check quota).'')"
    by (simp add: attempt_def quota_then_success_def)
  have q: "is_quota (lower (exc_str
             (ApiError ''429 Resource has been exhausted (e.g. check quota).'')))"
    by (simp add: is_quota_def lower_def lower_char_def)
  show "analyze_video quota_then_success (Some ''AAAA'') 3 =
     (Inl PreparationError, \<lparr>retry_count = 1, video_base64 = None, sleeps = [5], calls = 1\<rparr>)"
    using quota_retry_never_calls_again[OF _ r q, of 3 "''AAAA''"] by simp
  show "attempt quota_then_success 2 = Returned (Inr complete_analysis)"
    using process_complete_text by (simp add: attempt_def quota_then_success_def)
qed

section \<open>Properties of the hashtag inference\<close>

text \<open>
  The tokens of \<open>split\<close> are not empty, hold no whitespace, and together are the
  characters of the string that are not whitespace, in order. For a caption that is a
  string, and for no caption at all, the inference step does what its comments say; for
  any other caption it raises.
\<close>

lemma split_from_tokens:
  "\<forall>c \<in> set cur. \<not> is_space c \<Longrightarrow> w \<in> set (split_from cur s) \<Longrightarrow>
   w \<noteq> [] \<and> (\<forall>c \<in> set w. \<not> is_space c)"
proof (induction s arbitrary: cur)
  case Nil
  then show ?case by (auto split: if_splits)
next
  case (Cons a s)
  show ?case
  proof (cases "is_space a")
    case True
    then have "w = cur \<and> cur \<noteq> [] \<or> w \<in> set (split_from [] s)"
      using Cons.prems(2) by (auto split: if_splits)
    then show ?thesis
      using Cons.IH[of "[]"] Cons.prems(1) by auto
  next
    case False
    then have "w \<in> set (split_from (cur @ [a]) s)"
      using Cons.prems(2) by simp
    moreover have "\<forall>c \<in> set (cur @ [a]). \<not> is_space c"
      using False Cons.prems(1) by simp
    ultimately show ?thesis
      using Cons.IH[of "cur @ [a]"] by blast
  qed
qed

lemma split_from_concat:
  "concat (split_from cur s) = cur @ filter (\<lambda>c. \<not> is_space c) s"
  by (induction s arbitrary: cur) auto

lemma split_tokens: "\<forall>w \<in> set (split s). w \<noteq> [] \<and> (\<forall>c \<in> set w. \<not> is_space c)"
  using split_from_tokens[of "[]" _ s] by (simp add: split_def)

lemma split_concat: "concat (split s) = filter (\<lambda>c. \<not> is_space c) s"
  by (simp add: split_def split_from_concat)

lemma ensure_hashtags_string:
  "\<not> has_key ''hashtags'' d \<Longrightarrow> map_of d ''caption_video'' = Some (JString s) \<Longrightarrow>
   ensure_hashtags d =
     Inr (AList.update ''hashtags''
            (if filter startswith_hash (split s) \<noteq> []
             then JArray (map JString (filter startswith_hash (split s)))
             else default_hashtags) d)"
  by (simp add: ensure_hashtags_def Let_def)

lemma ensure_hashtags_no_caption:
  "\<not> has_key ''hashtags'' d \<Longrightarrow> map_of d ''caption_video'' = None \<Longrightarrow>
   ensure_hashtags d = Inr (AList.update ''hashtags'' default_hashtags d)"
  by (simp add: ensure_hashtags_def)

lemma ensure_hashtags_not_string:
  "\<not> has_key ''hashtags'' d \<Longrightarrow> map_of d ''caption_video'' = Some v \<Longrightarrow>
   \<forall>s. v \<noteq> JString s \<Longrightarrow>
   ensure_hashtags d = Inl (AttributeError (no_attribute_split v))"
  by (cases v) (simp_all add: ensure_hashtags_def)

subsection \<open>C6: hashtags inferred from the caption\<close>

text \<open>
  C6, the code at a failing input. The parsed object \<open>{"caption_video": null}\<close> has no
  \<open>hashtags\<close> after the sweep and its caption has no token that starts with a hash
  sign, for which the claim gives the three default hashtags. The repair returns no
  object: \<open>caption.split()\<close> raises \<open>AttributeError\<close>. (For a caption that is a
  string, \<open>ensure_hashtags_string\<close> above is what the claim says.)
\<close>

theorem hashtags_from_null_caption_evaluation:
  "\<not> has_key ''hashtags'' (fill_missing_fields (apply_field_mapping [(''caption_video'', JNull)]))
   \<and> map_of (fill_missing_fields (apply_field_mapping [(''caption_video'', JNull)]))
        ''caption_video'' = Some JNull
   \<and> repair_object [(''caption_video'', JNull)] =
       Inl (AttributeError
             ([CHR 0x27] @ ''NoneType'' @ [CHR 0x27] @ '' object has no attribute '' @
              [CHR 0x27] @ ''split'' @ [CHR 0x27]))"
proof -
  have c: "map_of (fill_missing_fields (apply_field_mapping [(''caption_video'', JNull)]))
        ''caption_video'' = Some JNull"
    by (simp add: map_of_fill_missing_fields apply_field_mapping_unfold map_of_rename_field
          has_key_def)
  have h: "\<not> has_key ''hashtags''
             (fill_missing_fields (apply_field_mapping [(''caption_video'', JNull)]))"
    using hashtags_not_required
    by (simp add: has_key_def map_of_fill_missing_fields apply_field_mapping_unfold
          map_of_rename_field)
  from ensure_hashtags_not_string[OF h c] have
    "repair_object [(''caption_video'', JNull)] = Inl (AttributeError (no_attribute_split JNull))"
    by (simp add: repair_object_def)
  with c h show ?thesis by (simp add: no_attribute_split_def)
qed

subsection \<open>C8: the repair stage and exceptions\<close>

text \<open>
  C8, the code at a failing input. The response \<open>{"caption_video": ["#fuerza"]}\<close> is
  valid JSON whose caption is a list. The repair stage raises \<open>AttributeError\<close>, which
  is neither \<open>NoJsonFound\<close> nor \<open>JsonParseError\<close>; the handler meant for the errors of
  the remote call catches it, and \<open>analyze_video\<close> returns \<open>None\<close> as for an
  unrecoverable error of the call.
\<close>

theorem repair_throws_on_list_caption_evaluation:
  \<open>repair
     \<lparr>json_loads = (\<lambda>s. if s = ''{"caption_video": ["#fuerza"]}''
                          then Loaded [(''caption_video'', JArray [JString ''#fuerza''])]
                          else JSONDecodeError),
      validation_message = (\<lambda>d. ''1 validation error for VideoAnalysis''),
      generate_content = (\<lambda>i. Inr ''{"caption_video": ["#fuerza"]}'')\<rparr>
     ''{"caption_video": ["#fuerza"]}''
     = Inl (AttributeError
             ([CHR 0x27] @ ''list'' @ [CHR 0x27] @ '' object has no attribute '' @
              [CHR 0x27] @ ''split'' @ [CHR 0x27]))
   \<and> analyze_video
     \<lparr>json_loads = (\<lambda>s. if s = ''{"caption_video": ["#fuerza"]}''
                          then Loaded [(''caption_video'', JArray [JString ''#fuerza''])]
                          else JSONDecodeError),
      validation_message = (\<lambda>d. ''1 validation error for VideoAnalysis''),
      generate_content = (\<lambda>i. Inr ''{"caption_video": ["#fuerza"]}'')\<rparr>
     (Some ''AAAA'') 3
     = (Inl Unrecoverable,
        \<lparr>retry_count = 0, video_base64 = None, sleeps = [], calls = 1\<rparr>)\<close>
proof -
  let ?t = \<open>''{"caption_video": ["#fuerza"]}''\<close>
  let ?o = "[(''caption_video'', JArray [JString ''#fuerza''])]"
  let ?E = "\<lparr>json_loads = (\<lambda>s. if s = ?t then Loaded ?o else JSONDecodeError),
      validation_message = (\<lambda>d. ''1 validation error for VideoAnalysis''),
      generate_content = (\<lambda>i. Inr ?t)\<rparr>"
  let ?m = "[CHR 0x27] @ ''list'' @ [CHR 0x27] @ '' object has no attribute '' @
              [CHR 0x27] @ ''split'' @ [CHR 0x27]"
  have c: "map_of (fill_missing_fields (apply_field_mapping ?o)) ''caption_video''
             = Some (JArray [JString ''#fuerza''])"
    by (simp add: map_of_fill_missing_fields apply_field_mapping_unfold map_of_rename_field
          has_key_def)
  have h: "\<not> has_key ''hashtags'' (fill_missing_fields (apply_field_mapping ?o))"
    using hashtags_not_required
    by (simp add: has_key_def map_of_fill_missing_fields apply_field_mapping_unfold
          map_of_rename_field)
  from ensure_hashtags_not_string[OF h c]
  have o: "repair_object ?o = Inl (AttributeError ?m)"
    by (simp add: repair_object_def no_attribute_split_def)
  have r: "repair ?E ?t = Inl (AttributeError ?m)"
    using o by (simp add: repair_def find_str_def rfind_str_def slice_def)
  then have a: "attempt ?E 0 = Raised (AttributeError ?m)"
    by (simp add: attempt_def process_response_def)
  have q: "\<not> is_quota (lower (exc_str (AttributeError ?m)))"
    by (simp add: is_quota_def lower_def lower_char_def)
  have l: "\<not> is_too_large (lower (exc_str (AttributeError ?m)))"
    by (simp add: is_too_large_def lower_def lower_char_def)
  have "analyze_video ?E (Some ''AAAA'') 3
     = (Inl Unrecoverable,
        \<lparr>retry_count = 0, video_base64 = None, sleeps = [], calls = 1\<rparr>)"
    unfolding analyze_video_def
    using retry_loop_other[of "\<lparr>retry_count = 0, video_base64 = Some ''AAAA'', sleeps = [], calls = 0\<rparr>"
        3 "''AAAA''" ?E, OF _ _ _ q l] a
    by (simp add: finally_clause_def)
  with r show ?thesis by simp
qed

section \<open>Properties of the validation\<close>

lemma those_None_iff: "those xs = None \<longleftrightarrow> None \<in> set xs"
  by (induction xs) (auto split: option.splits)

lemma those_map_Some: "those (map (\<lambda>x. Some (f x)) xs) = Some (map f xs)"
  by (induction xs) auto

lemma valid_str_iff: "valid_str v = Some s \<longleftrightarrow> v = JString s"
  by (cases v) auto

lemma valid_pair_iff:
  "valid_pair e = Some (x, y) \<longleftrightarrow> e = JArray [JString x, JString y]"
proof
  assume "valid_pair e = Some (x, y)"
  then show "e = JArray [JString x, JString y]"
    by (induction e rule: valid_pair.induct)
       (auto simp: valid_str_iff split: option.splits)
next
  assume "e = JArray [JString x, JString y]"
  then show "valid_pair e = Some (x, y)" by simp
qed

lemma valid_pair_None:
  "\<not> (\<exists>x y. e = JArray [JString x, JString y]) \<Longrightarrow> valid_pair e = None"
  using valid_pair_iff[of e] by (cases "valid_pair e") auto

lemma valid_pair_list_bad_entry:
  "e \<in> set es \<Longrightarrow> \<not> (\<exists>x y. e = JArray [JString x, JString y]) \<Longrightarrow>
   valid_pair_list (JArray es) = None"
  using valid_pair_None[of e] by (force simp: those_None_iff)

lemma valid_pair_list_pairs:
  "valid_pair_list (JArray (map (\<lambda>p. JArray [JString (fst p), JString (snd p)]) ps)) = Some ps"
proof -
  have "those (map valid_pair (map (\<lambda>p. JArray [JString (fst p), JString (snd p)]) ps))
          = Some ps"
    by (induction ps) auto
  then show ?thesis by simp
qed

lemma validate_DialogInfo_bad_entry:
  "map_of dd ''dialogo'' = Some (JArray es) \<Longrightarrow> e \<in> set es \<Longrightarrow>
   \<not> (\<exists>x y. e = JArray [JString x, JString y]) \<Longrightarrow>
   validate_DialogInfo (JObject dd) = None"
  using valid_pair_list_bad_entry[of e es]
  by (simp add: validate_DialogInfo_def with_default_def valid_optional_def
        split: Option.bind_split)

lemma validate_fields_bad_dialogo:
  "required ''dialogo'' validate_DialogInfo d = None \<Longrightarrow> validate_fields d = None"
  by (simp add: validate_fields_def split: Option.bind_split)

subsection \<open>C9: the entries of the dialogue\<close>

text \<open>
  C9. When the \<open>dialogo\<close> field of the repaired object is a dictionary whose own
  \<open>dialogo\<close> is a list with an entry that is not a list of exactly two strings (an entry
  of any other length, a list of three in particular, or one that is no list at all),
  validation fails with the schema violation. A list of two strings is accepted as the
  pair of its components, and a dialogue made of such entries validates to the list of
  the pairs.
\<close>

theorem dialogue_entries_are_pairs:
  "(map_of d ''dialogo'' = Some (JObject dd) \<and> map_of dd ''dialogo'' = Some (JArray es)
      \<and> e \<in> set es \<and> \<not> (\<exists>x y. e = JArray [JString x, JString y]) \<longrightarrow>
    validate d = Inl SchemaViolation)
   \<and> valid_pair (JArray [JString x, JString y]) = Some (x, y)
   \<and> validate_DialogInfo
        (JObject [(''hay_dialogo'', JBool h),
                  (''dialogo'',
                   JArray (map (\<lambda>p. JArray [JString (fst p), JString (snd p)]) ps))])
       = Some \<lparr>hay_dialogo = h, dialogo_list = Some ps, extra_dialog = []\<rparr>"
proof (intro conjI impI)
  assume a: "map_of d ''dialogo'' = Some (JObject dd) \<and> map_of dd ''dialogo'' = Some (JArray es)
      \<and> e \<in> set es \<and> \<not> (\<exists>x y. e = JArray [JString x, JString y])"
  then have "validate_DialogInfo (JObject dd) = None"
    using validate_DialogInfo_bad_entry[of dd es e] by blast
  then have "required ''dialogo'' validate_DialogInfo d = None"
    using a by (simp add: required_def)
  then show "validate d = Inl SchemaViolation"
    by (simp add: validate_def validate_fields_bad_dialogo)
next
  show "valid_pair (JArray [JString x, JString y]) = Some (x, y)" by simp
next
  show "validate_DialogInfo
        (JObject [(''hay_dialogo'', JBool h),
                  (''dialogo'',
                   JArray (map (\<lambda>p. JArray [JString (fst p), JString (snd p)]) ps))])
       = Some \<lparr>hay_dialogo = h, dialogo_list = Some ps, extra_dialog = []\<rparr>"
    using valid_pair_list_pairs[of ps]
    by (simp add: validate_DialogInfo_def required_def with_default_def valid_optional_def
          extras_def)
qed

theorem dialogue_entries_are_pairs_witness:
  "validate
     [(''descripcion_original'', JString ''d''),
      (''dialogo'',
       JObject [(''hay_dialogo'', JBool True),
                (''dialogo'', JArray [JArray [JString ''A'', JString ''hola'', JString ''x'']])])]
   = Inl SchemaViolation"
proof -
  let ?e = "JArray [JString ''A'', JString ''hola'', JString ''x'']"
  let ?dd = "[(''hay_dialogo'', JBool True), (''dialogo'', JArray [?e])]"
  let ?d = "[(''descripcion_original'', JString ''d''), (''dialogo'', JObject ?dd)]"
  have "map_of ?d ''dialogo'' = Some (JObject ?dd) \<and> map_of ?dd ''dialogo'' = Some (JArray [?e])
      \<and> ?e \<in> set [?e] \<and> \<not> (\<exists>x y. ?e = JArray [JString x, JString y])"
    by simp
  with dialogue_entries_are_pairs [of ?d ?dd "[?e]" ?e]
  show ?thesis by blast
qed

section \<open>Properties of the JSON form of an analysis\<close>

lemma valid_str_list_dump: "valid_str_list (dump_str_list xs) = Some xs"
proof -
  have "those (map valid_str (map JString xs)) = Some xs"
    by (induction xs) auto
  then show ?thesis by (simp add: dump_str_list_def)
qed

lemma valid_pair_list_dump: "valid_pair_list (JArray (map dump_pair ps)) = Some ps"
proof -
  have "those (map valid_pair (map dump_pair ps)) = Some ps"
    by (induction ps) (auto simp: dump_pair_def)
  then show ?thesis by simp
qed

lemma validate_MusicRecommendation_dump:
  "extras_only [''nombre_cancion'', ''artista''] (extra_recommendation r) \<Longrightarrow>
   validate_MusicRecommendation (dump_MusicRecommendation r) = Some r"
  by (simp add: validate_MusicRecommendation_def dump_MusicRecommendation_def required_def
        extras_def extras_only_def)

lemma dump_MusicRecommendation_not_null: "dump_MusicRecommendation r \<noteq> JNull"
  by (simp add: dump_MusicRecommendation_def)

lemma validate_MusicInfo_dump:
  assumes "extras_only [''hay_musica'', ''recomendacion''] (extra_music m)"
    and "case recomendacion m of None \<Rightarrow> True
         | Some r \<Rightarrow> extras_only [''nombre_cancion'', ''artista''] (extra_recommendation r)"
  shows "validate_MusicInfo (dump_MusicInfo m) = Some m"
proof (cases "recomendacion m")
  case None
  then show ?thesis
    using assms(1)
    by (simp add: validate_MusicInfo_def dump_MusicInfo_def required_def with_default_def
          valid_optional_def extras_def extras_only_def)
next
  case (Some r)
  then have "validate_MusicRecommendation (dump_MusicRecommendation r) = Some r"
    using assms(2) validate_MusicRecommendation_dump by simp
  then show ?thesis
    using assms(1) Some dump_MusicRecommendation_not_null[of r]
    by (simp add: validate_MusicInfo_def dump_MusicInfo_def required_def with_default_def
          valid_optional_def extras_def extras_only_def)
qed

lemma validate_DialogInfo_dump:
  assumes "extras_only [''hay_dialogo'', ''dialogo''] (extra_dialog i)"
  shows "validate_DialogInfo (dump_DialogInfo i) = Some i"
proof (cases "dialogo_list i")
  case None
  then show ?thesis
    using assms
    by (simp add: validate_DialogInfo_def dump_DialogInfo_def required_def with_default_def
          valid_optional_def extras_def extras_only_def)
next
  case (Some ps)
  then show ?thesis
    using assms valid_pair_list_dump[of ps]
    by (simp add: validate_DialogInfo_def dump_DialogInfo_def required_def with_default_def
          valid_optional_def extras_def extras_only_def)
qed

lemma valid_optional_hashtags:
  "valid_optional valid_str_list (case h of None \<Rightarrow> JNull | Some hs \<Rightarrow> dump_str_list hs) = Some h"
  by (cases h) (simp_all add: valid_optional_def valid_str_list_dump, simp add: dump_str_list_def)

lemma validate_model_dump:
  assumes "well_formed va"
  shows "validate (model_dump va) = Inr va"
proof -
  have d: "validate_DialogInfo (dump_DialogInfo (dialogo va)) = Some (dialogo va)"
    using assms by (simp add: well_formed_def validate_DialogInfo_dump)
  have m: "validate_MusicInfo (dump_MusicInfo (musica va)) = Some (musica va)"
    using assms by (simp add: well_formed_def validate_MusicInfo_dump)
  have e: "extras field_names (model_dump va) = extra va"
    using assms by (simp add: well_formed_def extras_only_def extras_def model_dump_def
          field_names_def)
  have "validate_fields (model_dump va) = Some va"
    unfolding validate_fields_def e
    by (simp add: model_dump_def required_def with_default_def d m valid_str_list_dump
          valid_optional_hashtags)
  then show ?thesis by (simp add: validate_def)
qed

lemma has_all_fields_model_dump: "\<forall>f \<in> set field_names. has_key f (model_dump va)"
  by (simp add: field_names_def model_dump_def has_key_def)

lemma repair_object_complete_fields:
  assumes "\<forall>f \<in> set field_names. has_key f d"
  shows "repair_object d = Inr d"
proof -
  have k: "has_key ''titulo_portada'' d" "has_key ''gancho_video'' d"
    "has_key ''caption_video'' d" "has_key ''hashtags'' d"
    using assms by (simp_all add: field_names_def)
  have a: "apply_field_mapping d = d"
    unfolding apply_field_mapping_unfold using k by (simp add: rename_field_keeps)
  have "\<forall>f \<in> set required_fields. has_key f d"
    using assms by (simp add: field_names_def required_fields_def)
  then have "missing_fields d = []"
    by (simp add: missing_fields_def)
  then have f: "fill_missing_fields d = d"
    by (simp add: fill_missing_fields_def)
  show ?thesis
    unfolding repair_object_def a f using k(4) by (rule ensure_hashtags_present)
qed

section \<open>Properties of the whole processing of a response\<close>

lemma repair_on_span:
  assumes "raw = pre @ CHR ''{'' # mid @ CHR ''}'' # post"
    "CHR ''{'' \<notin> set pre" "CHR ''}'' \<notin> set post"
  shows "repair E raw =
          (case json_loads E (CHR ''{'' # mid @ [CHR ''}'']) of
             JSONDecodeError \<Rightarrow> Inr (Inl (JsonParseError (take 500 raw)))
           | LoadsRaised e \<Rightarrow> Inl e
           | Loaded json_response \<Rightarrow>
               (case repair_object json_response of
                  Inl e \<Rightarrow> Inl e
                | Inr d \<Rightarrow> Inr (Inr d)))"
proof -
  have i: "find_str CHR ''{'' raw = int (length pre)"
    "rfind_str CHR ''}'' raw = int (length (pre @ CHR ''{'' # mid))"
    using span_indices[of raw pre "CHR ''{''" mid "CHR ''}''" post] assms by blast+
  have s: "slice raw (int (length pre)) (int (length (pre @ CHR ''{'' # mid)) + 1)
             = CHR ''{'' # mid @ [CHR ''}'']"
    using assms(1) slice_span by blast
  have c: "find_str CHR ''{'' raw \<ge> 0 \<and> rfind_str CHR ''}'' raw > find_str CHR ''{'' raw"
    using i by simp
  show ?thesis
    unfolding repair_def Let_def using c s by (simp add: i)
qed

lemma complete_object_is_dump: "complete_object = model_dump complete_analysis"
  by (simp add: complete_object_def model_dump_def complete_analysis_def dump_str_list_def
        dump_DialogInfo_def dump_MusicInfo_def dump_pair_def)

lemma well_formed_complete_analysis: "well_formed complete_analysis"
  by (simp add: well_formed_def complete_analysis_def extras_only_def extras_def)

lemma find_text_without_hashtags: "find_str CHR ''{'' text_without_hashtags = 0"
  by (simp add: find_str_def text_without_hashtags_def)

lemma rfind_text_without_hashtags: "rfind_str CHR ''}'' text_without_hashtags = 284"
  by (simp add: rfind_str_def text_without_hashtags_def)

lemma slice_text_without_hashtags: "slice text_without_hashtags 0 285 = text_without_hashtags"
  by (simp add: slice_def text_without_hashtags_def)

lemma texts_differ: "text_without_hashtags \<noteq> complete_text"
proof
  assume "text_without_hashtags = complete_text"
  then have "length text_without_hashtags = length complete_text" by simp
  then show False by (simp add: text_without_hashtags_def complete_text_def)
qed

subsection \<open>C7: a response that is already complete\<close>

text \<open>
  C7, as the code has it. For every raw text whose span from the first opening brace to
  the last closing brace parses to an object in which all required fields and the
  \<open>hashtags\<close> field are present, the repair returns the parsed object as it is: no
  field is changed, added or removed. Validation is then applied to the parsed object
  itself, and the processing returns what validation gives. When the parsed object is
  the JSON form of an analysis, so that every value has the type the schema asks for,
  validation succeeds and the processing returns that analysis.
\<close>

theorem complete_response_round_trip:
  assumes "raw = pre @ CHR ''{'' # mid @ CHR ''}'' # post"
    and "CHR ''{'' \<notin> set pre" and "CHR ''}'' \<notin> set post"
    and "json_loads E (CHR ''{'' # mid @ [CHR ''}'']) = Loaded obj"
    and "\<forall>f \<in> set field_names. has_key f obj"
  shows "repair E raw = Inr (Inr obj)
       \<and> process_response E raw =
           (case validate obj of
              Inl v \<Rightarrow> Raised (ValidationError (validation_message E obj))
            | Inr va \<Rightarrow> Returned (Inr va))
       \<and> (\<forall>va. well_formed va \<and> obj = model_dump va \<longrightarrow>
             process_response E raw = Returned (Inr va))"
proof -
  have r: "repair E raw = Inr (Inr obj)"
    using repair_on_span[OF assms(1-3), of E] assms(4) repair_object_complete_fields[OF assms(5)]
    by simp
  then have p: "process_response E raw =
           (case validate obj of
              Inl v \<Rightarrow> Raised (ValidationError (validation_message E obj))
            | Inr va \<Rightarrow> Returned (Inr va))"
    by (simp add: process_response_def)
  have "\<forall>va. well_formed va \<and> obj = model_dump va \<longrightarrow>
             process_response E raw = Returned (Inr va)"
    using p validate_model_dump by auto
  with r p show ?thesis by blast
qed

theorem complete_response_round_trip_witness:
  "process_response example_env complete_text = Returned (Inr complete_analysis)"
proof -
  have t: "complete_text = [] @ CHR ''{'' # butlast (tl complete_text) @ CHR ''}'' # []"
    by (simp add: complete_text_def)
  have b: "CHR ''{'' # butlast (tl complete_text) @ [CHR ''}''] = complete_text"
    by (simp add: complete_text_def)
  have l: "json_loads example_env (CHR ''{'' # butlast (tl complete_text) @ [CHR ''}''])
             = Loaded complete_object"
    unfolding b by (simp add: example_env_def example_loads_def)
  have k: "\<forall>f \<in> set field_names. has_key f complete_object"
    unfolding complete_object_is_dump by (rule has_all_fields_model_dump)
  have n: "CHR ''{'' \<notin> set []" "CHR ''}'' \<notin> set []"
    by simp_all
  from complete_response_round_trip [OF t n l k]
  have "\<forall>va. well_formed va \<and> complete_object = model_dump va \<longrightarrow>
          process_response example_env complete_text = Returned (Inr va)"
    by blast
  then show ?thesis
    using well_formed_complete_analysis complete_object_is_dump by blast
qed

text \<open>
  The claim as stated asks only for the required fields. The example response without
  \<open>hashtags\<close> has all of them, and validates by itself to an analysis with no hashtags;
  but the repair adds a \<open>hashtags\<close> entry inferred from the caption, and the processing
  returns an analysis with that hashtag.
\<close>

theorem hashtags_added_counterexample:
  "json_loads example_env text_without_hashtags = Loaded object_without_hashtags
   \<and> missing_fields object_without_hashtags = []
   \<and> \<not> has_key ''hashtags'' object_without_hashtags
   \<and> validate object_without_hashtags = Inr (complete_analysis\<lparr>hashtags := Some []\<rparr>)
   \<and> repair example_env text_without_hashtags =
       Inr (Inr (object_without_hashtags @ [(''hashtags'', JArray [JString ''#x''])]))
   \<and> process_response example_env text_without_hashtags =
       Returned (Inr (complete_analysis\<lparr>hashtags := Some [''#x'']\<rparr>))"
proof -
  have l: "json_loads example_env text_without_hashtags = Loaded object_without_hashtags"
    using texts_differ by (simp add: example_env_def example_loads_def)
  have m: "missing_fields object_without_hashtags = []"
    by (simp add: missing_fields_def required_fields_def has_key_def
          object_without_hashtags_def complete_object_def)
  have h: "\<not> has_key ''hashtags'' object_without_hashtags"
    by (simp add: has_key_def object_without_hashtags_def complete_object_def)
  have v: "validate object_without_hashtags = Inr (complete_analysis\<lparr>hashtags := Some []\<rparr>)"
    by (simp add: validate_def validate_fields_def required_def with_default_def
          valid_optional_def validate_DialogInfo_def validate_MusicInfo_def extras_def
          field_names_def object_without_hashtags_def complete_object_def
          complete_analysis_def)
  have o: "repair_object object_without_hashtags =
             Inr (object_without_hashtags @ [(''hashtags'', JArray [JString ''#x''])])"
    by (simp add: repair_object_def ensure_hashtags_def fill_missing_fields_def
          missing_fields_def required_fields_def apply_field_mapping_unfold
          rename_field.simps has_key_def object_without_hashtags_def complete_object_def
          split_def is_space_def Let_def)
  have r: "repair example_env text_without_hashtags =
       Inr (Inr (object_without_hashtags @ [(''hashtags'', JArray [JString ''#x''])]))"
    using l o
    by (simp add: repair_def find_text_without_hashtags rfind_text_without_hashtags
          slice_text_without_hashtags)
  have v': "validate (object_without_hashtags @ [(''hashtags'', JArray [JString ''#x''])])
              = Inr (complete_analysis\<lparr>hashtags := Some [''#x'']\<rparr>)"
    by (simp add: validate_def validate_fields_def required_def with_default_def
          valid_optional_def validate_DialogInfo_def validate_MusicInfo_def extras_def
          field_names_def object_without_hashtags_def complete_object_def
          complete_analysis_def)
  have p: "process_response example_env text_without_hashtags =
       Returned (Inr (complete_analysis\<lparr>hashtags := Some [''#x'']\<rparr>))"
    using r v' by (simp add: process_response_def)
  from l m h v r p show ?thesis by blast
qed



subsection \<open>C3: extraction of the JSON text\<close>




section \<open>The rename table, at the result of the repair\<close>

text \<open>
  When the repair of the object returns, the returned object has the renaming of every
  entry of the table: the value moved to the new key and the old key gone when the old
  key was there and the new one was not; the value of a new key that was there kept; the
  old key as it was when nothing is moved.
\<close>

lemma alias_at_repair:
  assumes "repair_object d = Inr d'" and "(old_field, new_field) \<in> set field_mapping"
  shows "(has_key old_field d \<and> \<not> has_key new_field d \<longrightarrow>
            map_of d' new_field = map_of d old_field \<and> \<not> has_key old_field d')
       \<and> (has_key new_field d \<longrightarrow> map_of d' new_field = map_of d new_field)
       \<and> (\<not> (has_key old_field d \<and> \<not> has_key new_field d) \<longrightarrow>
            map_of d' old_field = map_of d old_field)"
proof -
  let ?a = "apply_field_mapping d"
  have keys: "old_field \<noteq> ''hashtags''" "new_field \<noteq> ''hashtags''"
    "old_field \<notin> set required_fields" "new_field \<in> set required_fields"
    using assms(2) by (auto simp: field_mapping_def required_fields_def)
  have e: "map_of d' old_field = map_of (fill_missing_fields ?a) old_field"
    "map_of d' new_field = map_of (fill_missing_fields ?a) new_field"
    using assms(1) keys(1,2) unfolding repair_object_def
    by (simp_all add: map_of_ensure_hashtags_other)
  have o: "map_of d' old_field = map_of ?a old_field"
    using e(1) keys(3) by (simp add: map_of_fill_missing_fields)
  have n: "has_key new_field ?a \<Longrightarrow> map_of d' new_field = map_of ?a new_field"
    using e(2) by (simp add: map_of_fill_missing_fields)
  have r: "renamed old_field new_field d ?a"
    using assms(2) renamed_titulo[of d] renamed_gancho[of d] renamed_caption[of d]
    by (auto simp: field_mapping_def)
  have 1: "has_key old_field d \<and> \<not> has_key new_field d \<longrightarrow>
            map_of d' new_field = map_of d old_field \<and> \<not> has_key old_field d'"
  proof
    assume c: "has_key old_field d \<and> \<not> has_key new_field d"
    then have m: "map_of ?a new_field = map_of d old_field" "\<not> has_key old_field ?a"
      using r by (simp_all add: renamed_def)
    then have "has_key new_field ?a"
      using c by (simp add: has_key_def)
    then show "map_of d' new_field = map_of d old_field \<and> \<not> has_key old_field d'"
      using n m o by (simp add: has_key_def)
  qed
  have 2: "has_key new_field d \<longrightarrow> map_of d' new_field = map_of d new_field"
  proof
    assume c: "has_key new_field d"
    then have m: "map_of ?a new_field = map_of d new_field"
      using r by (simp add: renamed_def)
    then have "has_key new_field ?a"
      using c by (simp add: has_key_def)
    then show "map_of d' new_field = map_of d new_field"
      using n m by simp
  qed
  have 3: "\<not> (has_key old_field d \<and> \<not> has_key new_field d) \<longrightarrow>
            map_of d' old_field = map_of d old_field"
    using r o by (simp add: renamed_def)
  from 1 2 3 show ?thesis by blast
qed

subsection \<open>C5: the rename table\<close>


end
